theory Spec2Isabelle
  imports Main "HOL-Library.Sublist"
begin

section \<open>The HTTP gateway of api.py\<close>

text \<open>
  api.py is a FastAPI application that turns each request into a run of an external
  command-line tool. On darwin the tool is started directly with an argument vector; on
  win32 it is started through PowerShell and wsl, with the request text written to a
  temporary file first.

  The handlers are modelled as functions on an explicit world (the temporary files and
  the log of the child processes started so far). An exception of the Python code is a
  value on the left of a sum. Python strings are modelled as \<^typ>\<open>string\<close>, a character
  being a code point below 256. The calls of the logging module write to a
  log file only; they decide no branch and no result and are left out.
\<close>

subsection \<open>Values, errors and responses\<close>

text \<open>An item of a tool listing: a bare string or a dictionary with string values.\<close>

datatype entry = Str_entry string | Dict_entry "(string \<times> string) list"

text \<open>What \<open>execute_fabric_command\<close> may hand back: a list, or something else.\<close>

datatype pyobj = PyList "entry list" | PyStr string | PyDict "(string \<times> string) list" | PyNone

text \<open>The outcome of a child process.\<close>

record proc_result =
  returncode :: int
  stdout :: string
  stderr :: string

text \<open>\<open>subprocess.CalledProcessError\<close>, with the fields the spec names for ExecutionFailure.\<close>

datatype called_process_error =
  CalledProcessError (exitCode: int) (command: string) (captured_stderr: string)

text \<open>
  The \<open>detail\<close> of an HTTPException. \<open>str(e)\<close> and \<open>str(result)\<close> are kept
  symbolic: the constructor records which object was rendered.
\<close>

datatype detail =
  Str_of_error called_process_error
| Str_of_result pyobj
| Message string

text \<open>
  Exceptions that no handler catches. Reading a local variable that was never assigned
  raises UnboundLocalError, a subclass of NameError.
\<close>

datatype py_exception =
  UnboundLocalError string
| TypeError
| FileNotFoundError string

fun is_NameError :: "py_exception \<Rightarrow> bool" where
  "is_NameError (UnboundLocalError v) = True"
| "is_NameError TypeError = False"
| "is_NameError (FileNotFoundError p) = False"

datatype failure = HTTPException nat detail | Unhandled py_exception

datatype response =
  Output string
| Data_models "(string \<times> string) list list"
| Data_patterns "entry list"

subsection \<open>The world and the environment\<close>

type_synonym filesystem = "string \<rightharpoonup> string"

text \<open>
  \<open>files\<close> maps the path of each existing file to its content; \<open>calls\<close> lists, in
  order, the argument vector of every child process started, with the files it found.
\<close>

record world =
  files :: filesystem
  calls :: "(string list \<times> filesystem) list"

text \<open>
  What the program does not decide: how a child process answers, how an argument vector
  is printed, which name \<open>tempfile.NamedTemporaryFile\<close> picks, and what
  \<open>execute_fabric_command\<close> of the absent module \<open>proxy\<close> returns.
\<close>

record env =
  exec :: "string list \<Rightarrow> filesystem \<Rightarrow> proc_result"
  command_string :: "string list \<Rightarrow> string"
  tmp_name :: "filesystem \<Rightarrow> string"
  execute_fabric_command :: "string \<Rightarrow> pyobj"

text \<open>The paths computed once when the module is loaded.\<close>

record profile =
  HOME_DIR :: string
  FABRIC_PATH :: string
  YT_PATH :: string

record pm_request =
  pattern :: string
  model :: string

record FabricRequest = pm_request +
  data :: string

record YTRequest = pm_request +
  url :: string

subsection \<open>Running a child process\<close>

text \<open>
  Modelled from the spec: \<open>run_command\<close> is imported from the module \<open>proxy\<close>, which
  is not part of the sources at hand. Section 4.1 of the spec: the process is started and
  awaited; exit code 0 returns the whole standard output; any other exit code fails with
  an ExecutionFailure carrying the captured standard error, the exit code and the command
  string.
\<close>

definition run_command ::
  "env \<Rightarrow> string list \<Rightarrow> world \<Rightarrow> (called_process_error + string) \<times> world" where
  "run_command E argv w =
     (let r = exec E argv (files w);
          w' = w\<lparr>calls := calls w @ [(argv, files w)]\<rparr>
      in if returncode r = 0 then (Inr (stdout r), w')
         else (Inl (CalledProcessError (returncode r) (command_string E argv) (stderr r)), w'))"

subsection \<open>Temporary files\<close>

text \<open>
  \<open>with tempfile.NamedTemporaryFile(mode='w', delete=False) as temp_file:
  temp_file.write(text); temp_file_path = temp_file.name\<close>:
  the file stays after the block, holding the text.
\<close>

definition write_temp_file :: "env \<Rightarrow> string \<Rightarrow> world \<Rightarrow> string \<times> world" where
  "write_temp_file E text w =
     (let p = tmp_name E (files w) in (p, w\<lparr>files := (files w)(p \<mapsto> text)\<rparr>))"

text \<open>\<open>os.unlink\<close> raises FileNotFoundError when there is no such file.\<close>

definition os_unlink :: "string \<Rightarrow> world \<Rightarrow> (py_exception + unit) \<times> world" where
  "os_unlink p w =
     (case files w p of
        None \<Rightarrow> (Inl (FileNotFoundError p), w)
      | Some _ \<Rightarrow> (Inr (), w\<lparr>files := (files w)(p := None)\<rparr>))"

subsection \<open>The command strings of the win32 branch\<close>

definition powershell_exe :: string where
  "powershell_exe =
     ''C:'' @ [CHR 0x5C] @ ''Windows'' @ [CHR 0x5C] @ ''System32'' @ [CHR 0x5C] @
     ''WindowsPowerShell'' @ [CHR 0x5C] @ ''v1.0'' @ [CHR 0x5C] @ ''powershell.exe''"

text \<open>The single-quote character that the f-strings put around a value.\<close>

abbreviation sq :: string where
  "sq \<equiv> [CHR 0x27]"

text \<open>Line 74: the f-string of \<open>fabric\<close>.\<close>

definition fabric_powershell_command :: "string \<Rightarrow> string \<Rightarrow> string \<Rightarrow> string \<Rightarrow> string" where
  "fabric_powershell_command temp_file_path fabric_path pat mdl =
     ''gc '' @ sq @ temp_file_path @ sq @ '' | wsl -e '' @ fabric_path @
     '' -sp '' @ sq @ pat @ sq @ '' --model '' @ sq @ mdl @ sq"

text \<open>Line 146: the f-string of \<open>yt\<close>; the model is interpolated bare.\<close>

definition yt_powershell_command :: "string \<Rightarrow> string \<Rightarrow> string \<Rightarrow> string \<Rightarrow> string" where
  "yt_powershell_command temp_file_path fabric_path pat mdl =
     ''gc '' @ sq @ temp_file_path @ sq @ '' | wsl -e '' @ fabric_path @
     '' -sp '' @ sq @ pat @ sq @ '' --model '' @ mdl"

subsection \<open>POST /fabric\<close>

text \<open>
  The win32 branch assigns \<open>temp_file_path\<close> only under \<open>if request.data:\<close>; the local
  variable is an option here, and reading it unassigned is the UnboundLocalError.
  Only CalledProcessError is caught and turned into a 500.
\<close>

definition fabric ::
  "env \<Rightarrow> string \<Rightarrow> profile \<Rightarrow> FabricRequest \<Rightarrow> world \<Rightarrow> (failure + response) \<times> world" where
  "fabric E sys_platform P request w =
     (if sys_platform = ''darwin'' then
        (case run_command E [FABRIC_PATH P, ''-sp'', pattern request, ''--text'', data request,
                             ''--model'', model request] w of
           (Inl e, w1) \<Rightarrow> (Inl (HTTPException 500 (Str_of_error e)), w1)
         | (Inr output, w1) \<Rightarrow> (Inr (Output output), w1))
      else if sys_platform = ''win32'' then
        (let (temp_file_path, w1) =
               (if data request \<noteq> [] then
                  (let (p, w') = write_temp_file E (data request) w in (Some p, w'))
                else (None, w))
         in case temp_file_path of
              None \<Rightarrow> (Inl (Unhandled (UnboundLocalError ''temp_file_path'')), w1)
            | Some p \<Rightarrow>
                (case run_command E [powershell_exe, ''-Command'',
                        fabric_powershell_command p (FABRIC_PATH P) (pattern request) (model request)] w1 of
                   (Inl e, w2) \<Rightarrow> (Inl (HTTPException 500 (Str_of_error e)), w2)
                 | (Inr output, w2) \<Rightarrow>
                     (case os_unlink p w2 of
                        (Inl x, w3) \<Rightarrow> (Inl (Unhandled x), w3)
                      | (Inr _, w3) \<Rightarrow> (Inr (Output output), w3))))
      else (Inl (Unhandled (UnboundLocalError ''output'')), w))"

subsection \<open>POST /yt\<close>

definition yt ::
  "env \<Rightarrow> string \<Rightarrow> profile \<Rightarrow> YTRequest \<Rightarrow> world \<Rightarrow> (failure + response) \<times> world" where
  "yt E sys_platform P request w =
     (if sys_platform = ''darwin'' then
        (case run_command E [YT_PATH P, url request] w of
           (Inl e, w1) \<Rightarrow> (Inl (HTTPException 500 (Str_of_error e)), w1)
         | (Inr transcript, w1) \<Rightarrow>
             (case run_command E [FABRIC_PATH P, ''-sp'', pattern request, ''--text'', transcript,
                                  ''--model'', model request] w1 of
                (Inl e, w2) \<Rightarrow> (Inl (HTTPException 500 (Str_of_error e)), w2)
              | (Inr output, w2) \<Rightarrow> (Inr (Output output), w2)))
      else if sys_platform = ''win32'' then
        (case run_command E [''wsl'', ''-e'', YT_PATH P, url request] w of
           (Inl e, w1) \<Rightarrow> (Inl (HTTPException 500 (Str_of_error e)), w1)
         | (Inr output, w1) \<Rightarrow>
             (if output \<noteq> [] then
                (let (p, w2) = write_temp_file E output w1 in
                 case run_command E [powershell_exe, ''-Command'',
                        yt_powershell_command p (FABRIC_PATH P) (pattern request) (model request)] w2 of
                   (Inl e, w3) \<Rightarrow> (Inl (HTTPException 500 (Str_of_error e)), w3)
                 | (Inr output', w3) \<Rightarrow>
                     (case os_unlink p w3 of
                        (Inl x, w4) \<Rightarrow> (Inl (Unhandled x), w4)
                      | (Inr _, w4) \<Rightarrow> (Inr (Output output'), w4)))
              else (Inr (Output output), w1)))
      else (Inl (Unhandled (UnboundLocalError ''output'')), w))"

subsection \<open>GET /models and GET /patterns\<close>

text \<open>\<open>sub in s\<close> on two Python strings: \<open>sub\<close> occurs in \<open>s\<close> as a substring.\<close>

fun py_in :: "string \<Rightarrow> string \<Rightarrow> bool" where
  "py_in sub [] = (sub = [])"
| "py_in sub (c # cs) = (prefix sub (c # cs) \<or> py_in sub cs)"

text \<open>
  \<open>str.isspace\<close> on the code points below 256: tab to carriage return, FS to US,
  space, NEL (U+0085) and the no-break space (U+00A0). These are the characters that
  \<open>strip()\<close> without an argument removes.
\<close>

definition py_isspace :: "char \<Rightarrow> bool" where
  "py_isspace c =
     (c \<in> set [CHR 0x09, CHR 0x0A, CHR 0x0B, CHR 0x0C, CHR 0x0D,
                CHR 0x1C, CHR 0x1D, CHR 0x1E, CHR 0x1F, CHR 0x20,
                CHR 0x85, CHR 0xA0])"

text \<open>\<open>s.strip()\<close>: the whitespace at both ends is dropped.\<close>

definition strip :: "string \<Rightarrow> string" where
  "strip s = rev (dropWhile py_isspace (rev (dropWhile py_isspace s)))"

definition header_names :: "string list" where
  "header_names = [''GPT Models:'', ''Local Models:'', ''Claude Models:'', ''Google Models:'']"

text \<open>
  One item of the comprehension at lines 93 to 98: \<open>None\<close> when the condition drops it,
  the new dictionary \<open>{"name": item['name']}\<close> when it is kept. On a string item,
  \<open>'name' in item\<close> is the substring test, and \<open>item['name']\<close> after it is a TypeError
  (a string is indexed by integers only).
\<close>

fun select_item :: "entry \<Rightarrow> py_exception + (string \<times> string) list option" where
  "select_item (Str_entry s) = (if py_in ''name'' s then Inl TypeError else Inr None)"
| "select_item (Dict_entry d) =
     (case map_of d ''name'' of
        None \<Rightarrow> Inr None
      | Some n \<Rightarrow>
          (if n \<notin> set header_names \<and> strip n \<noteq> [] then Inr (Some [(''name'', n)])
           else Inr None))"

fun filtered_models :: "entry list \<Rightarrow> py_exception + (string \<times> string) list list" where
  "filtered_models [] = Inr []"
| "filtered_models (item # rest) =
     (case select_item item of
        Inl x \<Rightarrow> Inl x
      | Inr sel \<Rightarrow>
          (case filtered_models rest of
             Inl x \<Rightarrow> Inl x
           | Inr ms \<Rightarrow> Inr (case sel of None \<Rightarrow> ms | Some m \<Rightarrow> m # ms)))"

definition get_models :: "env \<Rightarrow> string \<Rightarrow> failure + response" where
  "get_models E sys_platform =
     (if sys_platform \<in> set [''darwin'', ''win32''] then
        (case execute_fabric_command E ''--listmodels'' of
           PyList result \<Rightarrow>
             (case filtered_models result of
                Inl x \<Rightarrow> Inl (Unhandled x)
              | Inr ms \<Rightarrow> Inr (Data_models ms))
         | PyStr s \<Rightarrow>
             Inl (HTTPException 500 (Message ''Unexpected result format from execute_fabric_command''))
         | PyDict d \<Rightarrow>
             Inl (HTTPException 500 (Message ''Unexpected result format from execute_fabric_command''))
         | PyNone \<Rightarrow>
             Inl (HTTPException 500 (Message ''Unexpected result format from execute_fabric_command'')))
      else Inl (HTTPException 500 (Message ''Unsupported platform'')))"

text \<open>
  \<open>get_patterns\<close> assigns \<open>result\<close> on darwin and on win32 only; on any other platform
  the test \<open>isinstance(result, list)\<close> reads an unassigned variable.
\<close>

definition get_patterns :: "env \<Rightarrow> string \<Rightarrow> failure + response" where
  "get_patterns E sys_platform =
     (if sys_platform = ''darwin'' \<or> sys_platform = ''win32'' then
        (case execute_fabric_command E ''--list'' of
           PyList result \<Rightarrow> Inr (Data_patterns result)
         | PyStr s \<Rightarrow> Inl (HTTPException 500 (Str_of_result (PyStr s)))
         | PyDict d \<Rightarrow> Inl (HTTPException 500 (Str_of_result (PyDict d)))
         | PyNone \<Rightarrow> Inl (HTTPException 500 (Str_of_result PyNone)))
      else Inl (Unhandled (UnboundLocalError ''result'')))"

text \<open>
  What the comprehension keeps when every item passes its guard without an exception:
  the names of the records, in their order, without the names listed at lines 95 to 97
  and without the blank ones.
\<close>

fun name_of :: "entry \<Rightarrow> string option" where
  "name_of (Str_entry s) = None"
| "name_of (Dict_entry d) = map_of d ''name''"

definition spec_model_listing :: "entry list \<Rightarrow> (string \<times> string) list list" where
  "spec_model_listing xs =
     map (\<lambda>n. [(''name'', n)])
       (filter (\<lambda>n. n \<notin> set header_names \<and> \<not> list_all py_isspace n)
          (List.map_filter name_of xs))"

fun plain_string :: "entry \<Rightarrow> bool" where
  "plain_string (Str_entry s) = (\<not> py_in ''name'' s)"
| "plain_string (Dict_entry d) = True"

subsection \<open>Loading the module and starting the server\<close>

text \<open>\<open>s.replace(old, new)\<close>: every occurrence of \<open>old\<close>, left to right, without overlap.\<close>

fun replace_from :: "nat \<Rightarrow> string \<Rightarrow> string \<Rightarrow> string \<Rightarrow> string" where
  "replace_from k old new [] = []"
| "replace_from (Suc k) old new (c # cs) = replace_from k old new cs"
| "replace_from 0 old new (c # cs) =
     (if prefix old (c # cs) then new @ replace_from (length old - 1) old new cs
      else c # replace_from 0 old new cs)"

definition str_replace :: "string \<Rightarrow> string \<Rightarrow> string \<Rightarrow> string" where
  "str_replace old new s =
     (if old = [] then new @ concat (map (\<lambda>c. c # new) s) else replace_from 0 old new s)"

text \<open>The host: what \<open>os.path.expanduser("~")\<close> and \<open>os.path.join\<close> answer.\<close>

record host =
  expanduser :: string
  path_join :: "string \<Rightarrow> string list \<Rightarrow> string"

datatype event = Print string | Exit int | Listen string nat

text \<open>
  Lines 47 to 57, run when the module is loaded. \<open>sys.exit(1)\<close> ends the load; nothing
  after it in the file is reached.
\<close>

definition module_level :: "host \<Rightarrow> string \<Rightarrow> event list \<times> profile option" where
  "module_level H sys_platform =
     (if sys_platform = ''darwin'' then
        (let h = expanduser H in
         ([], Some \<lparr>HOME_DIR = h,
                    FABRIC_PATH = path_join H h [''.local'', ''bin'', ''fabric''],
                    YT_PATH = path_join H h [''.local'', ''bin'', ''yt'']\<rparr>))
      else if sys_platform = ''win32'' then
        (let h = str_replace ''C:'' [] (str_replace ''Users'' ''home'' (expanduser H)) in
         ([], Some \<lparr>HOME_DIR = h,
                    FABRIC_PATH =
                      str_replace [CHR 0x5C] ''/'' (path_join H h [''.local'', ''bin'', ''fabric'']),
                    YT_PATH =
                      str_replace [CHR 0x5C] ''/'' (path_join H h [''.local'', ''bin'', ''yt''])\<rparr>))
      else ([Print ''Unsupported operating system'', Exit 1], None))"

text \<open>\<open>start_api_server\<close>: uvicorn binds 127.0.0.1:49152 and serves.\<close>

definition start_api_server :: "event list \<Rightarrow> event list" where
  "start_api_server evs = evs @ [Listen ''127.0.0.1'' 49152]"

text \<open>
  The whole file, top to bottom: the module level, then, when run as a script
  (\<open>__name__ == "__main__"\<close>), the server.
\<close>

definition run_module :: "host \<Rightarrow> string \<Rightarrow> bool \<Rightarrow> event list" where
  "run_module H sys_platform is_main =
     (case module_level H sys_platform of
        (evs, None) \<Rightarrow> evs
      | (evs, Some P) \<Rightarrow> (if is_main then start_api_server evs else evs))"

fun is_Listen :: "event \<Rightarrow> bool" where
  "is_Listen (Listen h p) = True"
| "is_Listen (Print s) = False"
| "is_Listen (Exit n) = False"

subsection \<open>The quoting function that is defined at the end of the file\<close>

text \<open>
  \<open>sanitize_for_shell\<close> is \<open>shlex.quote\<close>: the empty string becomes two quotes, a string
  of safe characters only (ASCII letters, digits and \<open>_@%+=:,./-\<close>) is returned as it is,
  any other string is put in single quotes with each single quote inside it replaced by
  \<open>'"'"'\<close>. No handler calls it.
\<close>

definition safe_char :: "char \<Rightarrow> bool" where
  "safe_char c =
     (c \<in> set (''abcdefghijklmnopqrstuvwxyzABCDEFGHIJKLMNOPQRSTUVWXYZ'' @
               ''0123456789_@%+=:,./-''))"

definition sanitize_for_shell :: "string \<Rightarrow> string" where
  "sanitize_for_shell input_string =
     (if input_string = [] then sq @ sq
      else if list_all safe_char input_string then input_string
      else sq @ str_replace sq (sq @ [CHR 0x22] @ sq @ [CHR 0x22] @ sq) input_string @ sq)"

text \<open>
  The part of a command line that stands outside single quotes: a single quote opens or
  closes a quoted stretch, and the text inside is taken literally by the shell.
\<close>

fun outside_quotes :: "bool \<Rightarrow> string \<Rightarrow> string" where
  "outside_quotes q [] = []"
| "outside_quotes q (c # cs) =
     (if c = CHR 0x27 then outside_quotes (\<not> q) cs
      else if q then outside_quotes q cs
      else c # outside_quotes q cs)"

subsection \<open>Concrete environments\<close>

text \<open>
  A scripted environment: \<open>first\<close> answers the transcript fetch, \<open>second\<close> answers every
  run of fabric (the commands with \<open>-sp\<close> or, through PowerShell, \<open>-Command\<close>).
\<close>

definition demo_exec :: "proc_result \<Rightarrow> proc_result \<Rightarrow> string list \<Rightarrow> filesystem \<Rightarrow> proc_result" where
  "demo_exec first second argv fs =
     (if ''-sp'' \<in> set argv \<or> ''-Command'' \<in> set argv then second else first)"

definition demo_env :: "proc_result \<Rightarrow> proc_result \<Rightarrow> pyobj \<Rightarrow> env" where
  "demo_env first second listing =
     \<lparr>exec = demo_exec first second,
      command_string = concat,
      tmp_name = (\<lambda>fs. ''/tmp/tmpk3v9''),
      execute_fabric_command = (\<lambda>arg. listing)\<rparr>"

definition demo_profile :: profile where
  "demo_profile =
     \<lparr>HOME_DIR = ''/home/u'', FABRIC_PATH = ''/home/u/.local/bin/fabric'',
      YT_PATH = ''/home/u/.local/bin/yt''\<rparr>"

definition empty_world :: world where
  "empty_world = \<lparr>files = Map.empty, calls = []\<rparr>"

definition ok :: "string \<Rightarrow> proc_result" where
  "ok out = \<lparr>returncode = 0, stdout = out, stderr = []\<rparr>"

definition failed :: "int \<Rightarrow> string \<Rightarrow> proc_result" where
  "failed rc err = \<lparr>returncode = rc, stdout = [], stderr = err\<rparr>"

definition demo_host :: host where
  "demo_host = \<lparr>expanduser = ''/home/u'', path_join = (\<lambda>a bs. a @ concat (map (\<lambda>b. ''/'' @ b) bs))\<rparr>"

section \<open>Properties\<close>

subsection \<open>What a run of a child process leaves behind\<close>

lemma run_command_calls:
  "run_command E argv w = (r, w1) \<Longrightarrow>
     w1 = w\<lparr>calls := calls w @ [(argv, files w)]\<rparr>"
  by (auto simp: run_command_def Let_def split: if_splits)

lemma run_command_files: "run_command E argv w = (r, w1) \<Longrightarrow> files w1 = files w"
  by (auto simp: run_command_def Let_def split: if_splits)

subsection \<open>Quoting on the win32 branch\<close>

text \<open>
  C1. Every value interpolated into the PowerShell command string would have to pass
  through a safe quoting function. The handlers put the raw values between single quotes
  (and the model of \<open>yt\<close> between nothing), and \<open>sanitize_for_shell\<close> is never applied.
  With the model \<open>gpt-4; calc\<close>, POST /yt starts PowerShell on a command whose text
  outside the quotes ends in \<open>--model gpt-4; calc\<close>, where \<open>sanitize_for_shell\<close> would
  have put the value in quotes. With a pattern that holds single quotes, POST /fabric
  starts PowerShell on a command in which \<open>; calc;\<close> of the pattern stands outside the
  quotes.
\<close>

theorem bridged_command_interpolates_raw_values:
  "map fst (calls (snd (yt (demo_env (ok ''words'') (ok ''summary'') PyNone) ''win32'' demo_profile
       \<lparr>pattern = ''summarize'', model = ''gpt-4; calc'', url = ''https://youtu.be/x''\<rparr> empty_world)))
     = [[''wsl'', ''-e'', ''/home/u/.local/bin/yt'', ''https://youtu.be/x''],
        [powershell_exe, ''-Command'',
         ''gc '' @ sq @ ''/tmp/tmpk3v9'' @ sq @ '' | wsl -e /home/u/.local/bin/fabric -sp '' @ sq @
         ''summarize'' @ sq @ '' --model gpt-4; calc'']]
   \<and> outside_quotes False
        (''gc '' @ sq @ ''/tmp/tmpk3v9'' @ sq @ '' | wsl -e /home/u/.local/bin/fabric -sp '' @ sq @
         ''summarize'' @ sq @ '' --model gpt-4; calc'')
      = ''gc  | wsl -e /home/u/.local/bin/fabric -sp  --model gpt-4; calc''
   \<and> sanitize_for_shell ''gpt-4; calc'' = sq @ ''gpt-4; calc'' @ sq
   \<and> map fst (calls (snd (fabric (demo_env (ok ''words'') (ok ''summary'') PyNone) ''win32'' demo_profile
       \<lparr>pattern = ''x'' @ sq @ ''; calc; '' @ sq @ ''y'', model = ''gpt-4'', data = ''hello''\<rparr> empty_world)))
     = [[powershell_exe, ''-Command'',
         ''gc '' @ sq @ ''/tmp/tmpk3v9'' @ sq @ '' | wsl -e /home/u/.local/bin/fabric -sp '' @ sq @
         ''x'' @ sq @ ''; calc; '' @ sq @ ''y'' @ sq @ '' --model '' @ sq @ ''gpt-4'' @ sq]]
   \<and> outside_quotes False
        (''gc '' @ sq @ ''/tmp/tmpk3v9'' @ sq @ '' | wsl -e /home/u/.local/bin/fabric -sp '' @ sq @
         ''x'' @ sq @ ''; calc; '' @ sq @ ''y'' @ sq @ '' --model '' @ sq @ ''gpt-4'' @ sq)
      = ''gc  | wsl -e /home/u/.local/bin/fabric -sp ; calc;  --model ''"
proof (intro conjI)
  show "map fst (calls (snd (yt (demo_env (ok ''words'') (ok ''summary'') PyNone) ''win32'' demo_profile
       \<lparr>pattern = ''summarize'', model = ''gpt-4; calc'', url = ''https://youtu.be/x''\<rparr> empty_world)))
     = [[''wsl'', ''-e'', ''/home/u/.local/bin/yt'', ''https://youtu.be/x''],
        [powershell_exe, ''-Command'',
         ''gc '' @ sq @ ''/tmp/tmpk3v9'' @ sq @ '' | wsl -e /home/u/.local/bin/fabric -sp '' @ sq @
         ''summarize'' @ sq @ '' --model gpt-4; calc'']]"
    by (simp add: yt_def run_command_def write_temp_file_def os_unlink_def Let_def
        demo_env_def demo_exec_def ok_def demo_profile_def empty_world_def
        yt_powershell_command_def powershell_exe_def)
  show "outside_quotes False
        (''gc '' @ sq @ ''/tmp/tmpk3v9'' @ sq @ '' | wsl -e /home/u/.local/bin/fabric -sp '' @ sq @
         ''summarize'' @ sq @ '' --model gpt-4; calc'')
      = ''gc  | wsl -e /home/u/.local/bin/fabric -sp  --model gpt-4; calc''"
    by simp
  show "sanitize_for_shell ''gpt-4; calc'' = sq @ ''gpt-4; calc'' @ sq"
    by (simp add: sanitize_for_shell_def safe_char_def str_replace_def)
  show "map fst (calls (snd (fabric (demo_env (ok ''words'') (ok ''summary'') PyNone) ''win32'' demo_profile
       \<lparr>pattern = ''x'' @ sq @ ''; calc; '' @ sq @ ''y'', model = ''gpt-4'', data = ''hello''\<rparr> empty_world)))
     = [[powershell_exe, ''-Command'',
         ''gc '' @ sq @ ''/tmp/tmpk3v9'' @ sq @ '' | wsl -e /home/u/.local/bin/fabric -sp '' @ sq @
         ''x'' @ sq @ ''; calc; '' @ sq @ ''y'' @ sq @ '' --model '' @ sq @ ''gpt-4'' @ sq]]"
    by (simp add: fabric_def run_command_def write_temp_file_def os_unlink_def Let_def
        demo_env_def demo_exec_def ok_def demo_profile_def empty_world_def
        fabric_powershell_command_def powershell_exe_def)
  show "outside_quotes False
        (''gc '' @ sq @ ''/tmp/tmpk3v9'' @ sq @ '' | wsl -e /home/u/.local/bin/fabric -sp '' @ sq @
         ''x'' @ sq @ ''; calc; '' @ sq @ ''y'' @ sq @ '' --model '' @ sq @ ''gpt-4'' @ sq)
      = ''gc  | wsl -e /home/u/.local/bin/fabric -sp ; calc;  --model ''"
    by simp
qed

subsection \<open>The temporary file\<close>

text \<open>
  C2. The temporary file of a bridged call would have to be gone after the call, whether
  the bridging process succeeds or fails. \<open>os.unlink\<close> stands after the awaited
  \<open>run_command\<close>, outside any \<open>finally\<close>: when POST /fabric on win32 has written the
  file and the bridging process then fails, the handler answers 500 and the file is still
  there, holding the request data.
\<close>

theorem fabric_win32_failure_keeps_temp_file:
  assumes d: "data request \<noteq> []"
    and h: "run_command E [powershell_exe, ''-Command'',
              fabric_powershell_command (tmp_name E (files w)) (FABRIC_PATH P)
                (pattern request) (model request)]
              (snd (write_temp_file E (data request) w)) = (Inl e, w2)"
  shows "fabric E ''win32'' P request w = (Inl (HTTPException 500 (Str_of_error e)), w2)
         \<and> files w2 (tmp_name E (files w)) = Some (data request)"
proof -
  have "files w2 = files (snd (write_temp_file E (data request) w))"
    by (rule run_command_files[OF h])
  then have f: "files w2 (tmp_name E (files w)) = Some (data request)"
    by (simp add: write_temp_file_def Let_def)
  have "fabric E ''win32'' P request w = (Inl (HTTPException 500 (Str_of_error e)), w2)"
    using d h by (simp add: fabric_def write_temp_file_def Let_def)
  with f show ?thesis by simp
qed

theorem fabric_win32_failure_keeps_temp_file_witness:
  "fst (fabric (demo_env (ok []) (failed 1 ''boom'') PyNone) ''win32'' demo_profile
         \<lparr>pattern = ''summarize'', model = ''gpt-4'', data = ''hello''\<rparr> empty_world)
     = Inl (HTTPException 500 (Str_of_error (CalledProcessError 1
         (command_string (demo_env (ok []) (failed 1 ''boom'') PyNone)
           [powershell_exe, ''-Command'',
            fabric_powershell_command ''/tmp/tmpk3v9'' ''/home/u/.local/bin/fabric''
              ''summarize'' ''gpt-4'']) ''boom'')))
   \<and> files (snd (fabric (demo_env (ok []) (failed 1 ''boom'') PyNone) ''win32'' demo_profile
         \<lparr>pattern = ''summarize'', model = ''gpt-4'', data = ''hello''\<rparr> empty_world))
       ''/tmp/tmpk3v9'' = Some ''hello''"
proof -
  let ?E = "demo_env (ok []) (failed 1 ''boom'') PyNone"
  let ?r = "\<lparr>pattern = ''summarize'', model = ''gpt-4'', data = ''hello''\<rparr>"
  let ?c = "[powershell_exe, ''-Command'',
            fabric_powershell_command (tmp_name ?E (files empty_world)) (FABRIC_PATH demo_profile)
              (pattern ?r) (model ?r)]"
  let ?w1 = "snd (write_temp_file ?E (data ?r) empty_world)"
  let ?e = "CalledProcessError 1 (command_string ?E ?c) ''boom''"
  have t: "tmp_name ?E (files empty_world) = ''/tmp/tmpk3v9''"
    by (simp add: demo_env_def)
  have d: "data ?r \<noteq> []" by simp
  have h: "run_command ?E ?c ?w1 = (Inl ?e, ?w1\<lparr>calls := calls ?w1 @ [(?c, files ?w1)]\<rparr>)"
    by (simp add: run_command_def Let_def demo_env_def demo_exec_def failed_def)
  from fabric_win32_failure_keeps_temp_file[OF d h] t show ?thesis
    by (simp add: demo_profile_def)
qed

text \<open>The same on POST /yt, and the success path of both handlers, where the file goes.\<close>

lemma yt_win32_failure_keeps_temp_file:
  assumes h1: "run_command E [''wsl'', ''-e'', YT_PATH P, url request] w = (Inr t, w1)"
    and t: "t \<noteq> []"
    and h2: "run_command E [powershell_exe, ''-Command'',
              yt_powershell_command (tmp_name E (files w)) (FABRIC_PATH P)
                (pattern request) (model request)]
              (snd (write_temp_file E t w1)) = (Inl e, w3)"
  shows "yt E ''win32'' P request w = (Inl (HTTPException 500 (Str_of_error e)), w3)
         \<and> files w3 (tmp_name E (files w)) = Some t"
proof -
  have f1: "files w1 = files w" by (rule run_command_files[OF h1])
  have "files w3 = files (snd (write_temp_file E t w1))"
    by (rule run_command_files[OF h2])
  then have f: "files w3 (tmp_name E (files w)) = Some t"
    by (simp add: write_temp_file_def Let_def f1)
  have "yt E ''win32'' P request w = (Inl (HTTPException 500 (Str_of_error e)), w3)"
    using h1 t h2 f1 by (simp add: yt_def write_temp_file_def Let_def)
  with f show ?thesis by simp
qed

lemma fabric_win32_success_removes_temp_file:
  assumes d: "data request \<noteq> []"
    and h: "run_command E [powershell_exe, ''-Command'',
              fabric_powershell_command (tmp_name E (files w)) (FABRIC_PATH P)
                (pattern request) (model request)]
              (snd (write_temp_file E (data request) w)) = (Inr out, w2)"
  shows "fst (fabric E ''win32'' P request w) = Inr (Output out)
         \<and> files (snd (fabric E ''win32'' P request w)) (tmp_name E (files w)) = None"
proof -
  have "files w2 = files (snd (write_temp_file E (data request) w))"
    by (rule run_command_files[OF h])
  then have f: "files w2 (tmp_name E (files w)) = Some (data request)"
    by (simp add: write_temp_file_def Let_def)
  show ?thesis
    using d h f by (simp add: fabric_def write_temp_file_def Let_def os_unlink_def)
qed

lemma yt_win32_success_removes_temp_file:
  assumes h1: "run_command E [''wsl'', ''-e'', YT_PATH P, url request] w = (Inr t, w1)"
    and t: "t \<noteq> []"
    and h2: "run_command E [powershell_exe, ''-Command'',
              yt_powershell_command (tmp_name E (files w)) (FABRIC_PATH P)
                (pattern request) (model request)]
              (snd (write_temp_file E t w1)) = (Inr out, w3)"
  shows "fst (yt E ''win32'' P request w) = Inr (Output out)
         \<and> files (snd (yt E ''win32'' P request w)) (tmp_name E (files w)) = None"
proof -
  have f1: "files w1 = files w" by (rule run_command_files[OF h1])
  have "files w3 = files (snd (write_temp_file E t w1))"
    by (rule run_command_files[OF h2])
  then have f: "files w3 (tmp_name E (files w)) = Some t"
    by (simp add: write_temp_file_def Let_def f1)
  show ?thesis
    using h1 t h2 f1 f by (simp add: yt_def write_temp_file_def Let_def os_unlink_def)
qed

subsection \<open>The composite flow of POST /yt\<close>

text \<open>
  C3, as stated, at a concrete input: on win32 the transcript fetch succeeds with an empty
  standard output. One process has been started, not two; no fabric run has the
  transcript as its input, and the answer is the empty output.
\<close>

theorem yt_win32_single_execution_counterexample:
  "fst (run_command (demo_env (ok []) (ok ''summary'') PyNone)
          [''wsl'', ''-e'', ''/home/u/.local/bin/yt'', ''https://youtu.be/x''] empty_world) = Inr []
   \<and> fst (yt (demo_env (ok []) (ok ''summary'') PyNone) ''win32'' demo_profile
        \<lparr>pattern = ''summarize'', model = ''gpt-4'', url = ''https://youtu.be/x''\<rparr> empty_world)
       = Inr (Output [])
   \<and> map fst (calls (snd (yt (demo_env (ok []) (ok ''summary'') PyNone) ''win32'' demo_profile
        \<lparr>pattern = ''summarize'', model = ''gpt-4'', url = ''https://youtu.be/x''\<rparr> empty_world)))
       = [[''wsl'', ''-e'', ''/home/u/.local/bin/yt'', ''https://youtu.be/x'']]"
  by (simp add: yt_def run_command_def Let_def demo_env_def demo_exec_def ok_def
      demo_profile_def empty_world_def)

text \<open>
  C3, amended. In POST /yt the transcript fetch runs first. If it fails with \<open>e\<close>, the
  answer is the 500 whose detail is \<open>str(e)\<close> and the world is the one that fetch left:
  no second process was started. If it succeeds with standard output \<open>t\<close>, then on darwin
  fabric is run next with the whole of \<open>t\<close> as its \<open>--text\<close> argument, and on win32,
  when \<open>t\<close> is not empty, PowerShell is run next on the command that pipes the temporary
  file into fabric, in a file system where that file holds the whole of \<open>t\<close>.
\<close>

theorem yt_composite_flow:
  "(run_command E [YT_PATH P, url request] w = (Inl e, w1) \<longrightarrow>
      yt E ''darwin'' P request w = (Inl (HTTPException 500 (Str_of_error e)), w1)
      \<and> calls w1 = calls w @ [([YT_PATH P, url request], files w)])
   \<and> (run_command E [''wsl'', ''-e'', YT_PATH P, url request] w = (Inl e, w1) \<longrightarrow>
      yt E ''win32'' P request w = (Inl (HTTPException 500 (Str_of_error e)), w1)
      \<and> calls w1 = calls w @ [([''wsl'', ''-e'', YT_PATH P, url request], files w)])
   \<and> (run_command E [YT_PATH P, url request] w = (Inr t, w1) \<longrightarrow>
      calls (snd (yt E ''darwin'' P request w)) =
        calls w @ [([YT_PATH P, url request], files w),
                   ([FABRIC_PATH P, ''-sp'', pattern request, ''--text'', t,
                     ''--model'', model request], files w)])
   \<and> (run_command E [''wsl'', ''-e'', YT_PATH P, url request] w = (Inr t, w1) \<and> t \<noteq> [] \<longrightarrow>
      calls (snd (yt E ''win32'' P request w)) =
        calls w @ [([''wsl'', ''-e'', YT_PATH P, url request], files w),
                   ([powershell_exe, ''-Command'',
                     yt_powershell_command (tmp_name E (files w)) (FABRIC_PATH P)
                       (pattern request) (model request)],
                    (files w)(tmp_name E (files w) \<mapsto> t))])"
proof (intro conjI impI)
  assume h: "run_command E [YT_PATH P, url request] w = (Inl e, w1)"
  from h show "yt E ''darwin'' P request w = (Inl (HTTPException 500 (Str_of_error e)), w1)"
    by (simp add: yt_def)
  from run_command_calls[OF h] show "calls w1 = calls w @ [([YT_PATH P, url request], files w)]"
    by simp
next
  assume h: "run_command E [''wsl'', ''-e'', YT_PATH P, url request] w = (Inl e, w1)"
  from h show "yt E ''win32'' P request w = (Inl (HTTPException 500 (Str_of_error e)), w1)"
    by (simp add: yt_def)
  from run_command_calls[OF h]
  show "calls w1 = calls w @ [([''wsl'', ''-e'', YT_PATH P, url request], files w)]"
    by simp
next
  assume h: "run_command E [YT_PATH P, url request] w = (Inr t, w1)"
  obtain r w2 where s: "run_command E [FABRIC_PATH P, ''-sp'', pattern request, ''--text'', t,
                     ''--model'', model request] w1 = (r, w2)"
    by (cases "run_command E [FABRIC_PATH P, ''-sp'', pattern request, ''--text'', t,
                     ''--model'', model request] w1")
  have "snd (yt E ''darwin'' P request w) = w2"
    using h s by (cases r) (simp_all add: yt_def)
  with run_command_calls[OF h] run_command_calls[OF s]
  show "calls (snd (yt E ''darwin'' P request w)) =
        calls w @ [([YT_PATH P, url request], files w),
                   ([FABRIC_PATH P, ''-sp'', pattern request, ''--text'', t,
                     ''--model'', model request], files w)]"
    by simp
next
  assume "run_command E [''wsl'', ''-e'', YT_PATH P, url request] w = (Inr t, w1) \<and> t \<noteq> []"
  then have h: "run_command E [''wsl'', ''-e'', YT_PATH P, url request] w = (Inr t, w1)"
    and t: "t \<noteq> []" by simp_all
  let ?p = "tmp_name E (files w)"
  let ?c = "[powershell_exe, ''-Command'',
             yt_powershell_command ?p (FABRIC_PATH P) (pattern request) (model request)]"
  let ?w2 = "w1\<lparr>files := (files w1)(?p \<mapsto> t)\<rparr>"
  have f1: "files w1 = files w" by (rule run_command_files[OF h])
  have wt: "write_temp_file E t w1 = (?p, ?w2)"
    by (simp add: write_temp_file_def Let_def f1)
  obtain r w3 where s: "run_command E ?c ?w2 = (r, w3)"
    by (cases "run_command E ?c ?w2")
  have c3: "calls w3 = calls w @ [([''wsl'', ''-e'', YT_PATH P, url request], files w),
                   (?c, (files w)(?p \<mapsto> t))]"
    using run_command_calls[OF h] run_command_calls[OF s] f1 by simp
  have f3: "files w3 ?p = Some t" using run_command_files[OF s] by simp
  have "calls (snd (yt E ''win32'' P request w)) = calls w3"
    using h t wt s f3 by (cases r) (simp_all add: yt_def os_unlink_def)
  with c3 show "calls (snd (yt E ''win32'' P request w)) =
        calls w @ [([''wsl'', ''-e'', YT_PATH P, url request], files w),
                   (?c, (files w)(?p \<mapsto> t))]"
    by simp
qed

theorem yt_composite_flow_witness:
  "fst (yt (demo_env (failed 2 ''no captions'') (ok ''summary'') PyNone) ''darwin'' demo_profile
        \<lparr>pattern = ''summarize'', model = ''gpt-4'', url = ''https://youtu.be/x''\<rparr> empty_world)
     = Inl (HTTPException 500 (Str_of_error (CalledProcessError 2
         (command_string (demo_env (failed 2 ''no captions'') (ok ''summary'') PyNone)
            [''/home/u/.local/bin/yt'', ''https://youtu.be/x'']) ''no captions'')))
   \<and> calls (snd (yt (demo_env (failed 2 ''no captions'') (ok ''summary'') PyNone) ''win32'' demo_profile
        \<lparr>pattern = ''summarize'', model = ''gpt-4'', url = ''https://youtu.be/x''\<rparr> empty_world))
     = [([''wsl'', ''-e'', ''/home/u/.local/bin/yt'', ''https://youtu.be/x''], Map.empty)]
   \<and> calls (snd (yt (demo_env (ok ''words'') (ok ''summary'') PyNone) ''darwin'' demo_profile
        \<lparr>pattern = ''summarize'', model = ''gpt-4'', url = ''https://youtu.be/x''\<rparr> empty_world))
     = [([''/home/u/.local/bin/yt'', ''https://youtu.be/x''], Map.empty),
        ([''/home/u/.local/bin/fabric'', ''-sp'', ''summarize'', ''--text'', ''words'',
          ''--model'', ''gpt-4''], Map.empty)]
   \<and> calls (snd (yt (demo_env (ok ''words'') (ok ''summary'') PyNone) ''win32'' demo_profile
        \<lparr>pattern = ''summarize'', model = ''gpt-4'', url = ''https://youtu.be/x''\<rparr> empty_world))
     = [([''wsl'', ''-e'', ''/home/u/.local/bin/yt'', ''https://youtu.be/x''], Map.empty),
        ([powershell_exe, ''-Command'',
          yt_powershell_command ''/tmp/tmpk3v9'' ''/home/u/.local/bin/fabric'' ''summarize'' ''gpt-4''],
         [''/tmp/tmpk3v9'' \<mapsto> ''words''])]"
proof -
  let ?F = "demo_env (failed 2 ''no captions'') (ok ''summary'') PyNone"
  let ?G = "demo_env (ok ''words'') (ok ''summary'') PyNone"
  let ?r = "\<lparr>pattern = ''summarize'', model = ''gpt-4'', url = ''https://youtu.be/x''\<rparr>"
  let ?d = "[YT_PATH demo_profile, url ?r]"
  let ?b = "[''wsl'', ''-e'', YT_PATH demo_profile, url ?r]"
  let ?wd = "empty_world\<lparr>calls := calls empty_world @ [(?d, files empty_world)]\<rparr>"
  let ?wb = "empty_world\<lparr>calls := calls empty_world @ [(?b, files empty_world)]\<rparr>"
  have h1: "run_command ?F ?d empty_world
              = (Inl (CalledProcessError 2 (command_string ?F ?d) ''no captions''), ?wd)"
    by (simp add: run_command_def Let_def demo_env_def demo_exec_def failed_def demo_profile_def)
  have h2: "run_command ?F ?b empty_world
              = (Inl (CalledProcessError 2 (command_string ?F ?b) ''no captions''), ?wb)"
    by (simp add: run_command_def Let_def demo_env_def demo_exec_def failed_def demo_profile_def)
  have h3: "run_command ?G ?d empty_world = (Inr ''words'', ?wd)"
    by (simp add: run_command_def Let_def demo_env_def demo_exec_def ok_def demo_profile_def)
  have h4: "run_command ?G ?b empty_world = (Inr ''words'', ?wb) \<and> ''words'' \<noteq> []"
    by (simp add: run_command_def Let_def demo_env_def demo_exec_def ok_def demo_profile_def)
  from yt_composite_flow[of ?F demo_profile ?r empty_world
        "CalledProcessError 2 (command_string ?F ?d) ''no captions''" ?wd] h1
  have 1: "yt ?F ''darwin'' demo_profile ?r empty_world
             = (Inl (HTTPException 500 (Str_of_error
                  (CalledProcessError 2 (command_string ?F ?d) ''no captions''))), ?wd)"
    by blast
  from yt_composite_flow[of ?F demo_profile ?r empty_world
        "CalledProcessError 2 (command_string ?F ?b) ''no captions''" ?wb] h2
  have 2: "yt ?F ''win32'' demo_profile ?r empty_world
             = (Inl (HTTPException 500 (Str_of_error
                  (CalledProcessError 2 (command_string ?F ?b) ''no captions''))), ?wb)"
    by blast
  from yt_composite_flow[of ?G demo_profile ?r empty_world _ ?wd "''words''"] h3
  have 3: "calls (snd (yt ?G ''darwin'' demo_profile ?r empty_world)) =
        calls empty_world @ [(?d, files empty_world),
                   ([FABRIC_PATH demo_profile, ''-sp'', pattern ?r, ''--text'', ''words'',
                     ''--model'', model ?r], files empty_world)]"
    by blast
  from yt_composite_flow[of ?G demo_profile ?r empty_world _ ?wb "''words''"] h4
  have 4: "calls (snd (yt ?G ''win32'' demo_profile ?r empty_world)) =
        calls empty_world @ [(?b, files empty_world),
                   ([powershell_exe, ''-Command'',
                     yt_powershell_command (tmp_name ?G (files empty_world)) (FABRIC_PATH demo_profile)
                       (pattern ?r) (model ?r)],
                    (files empty_world)(tmp_name ?G (files empty_world) \<mapsto> ''words''))]"
    by blast
  have t: "tmp_name ?G (files empty_world) = ''/tmp/tmpk3v9''"
    by (simp add: demo_env_def)
  show ?thesis
    using 1 2 3 4 t by (simp add: demo_profile_def empty_world_def)
qed

subsection \<open>The result of a child process\<close>

text \<open>
  C4. \<open>run_command\<close> returns the standard output of the child process, as captured,
  exactly when the process exits with code 0; on any other exit code it fails with an
  error whose exit code is the code of the process and whose stderr is the captured error
  stream.
\<close>

theorem run_command_result:
  "(fst (run_command E argv w) = Inr out) =
     (returncode (exec E argv (files w)) = 0 \<and> out = stdout (exec E argv (files w)))
   \<and> (returncode (exec E argv (files w)) \<noteq> 0 \<longrightarrow>
        (\<exists>e. fst (run_command E argv w) = Inl e
           \<and> exitCode e = returncode (exec E argv (files w))
           \<and> captured_stderr e = stderr (exec E argv (files w))))"
  by (auto simp: run_command_def Let_def)

theorem run_command_result_witness:
  "fst (run_command (demo_env (ok ''text'') (failed 3 ''boom'') PyNone)
          [''/bin/yt'', ''u''] empty_world) = Inr ''text''
   \<and> (\<exists>e. fst (run_command (demo_env (ok ''text'') (failed 3 ''boom'') PyNone)
                  [''/bin/fabric'', ''-sp'', ''p''] empty_world) = Inl e
          \<and> exitCode e = 3 \<and> captured_stderr e = ''boom'')"
proof -
  let ?E = "demo_env (ok ''text'') (failed 3 ''boom'') PyNone"
  have a: "returncode (exec ?E [''/bin/yt'', ''u''] (files empty_world)) = 0 \<and>
      ''text'' = stdout (exec ?E [''/bin/yt'', ''u''] (files empty_world))"
    by (simp add: demo_env_def demo_exec_def ok_def)
  have b: "returncode (exec ?E [''/bin/fabric'', ''-sp'', ''p''] (files empty_world)) \<noteq> 0"
    by (simp add: demo_env_def demo_exec_def failed_def)
  have c: "returncode (exec ?E [''/bin/fabric'', ''-sp'', ''p''] (files empty_world)) = 3"
    "stderr (exec ?E [''/bin/fabric'', ''-sp'', ''p''] (files empty_world)) = ''boom''"
    by (simp_all add: demo_env_def demo_exec_def failed_def)
  from run_command_result[of ?E "[''/bin/yt'', ''u'']" empty_world "''text''"] a
  have 1: "fst (run_command ?E [''/bin/yt'', ''u''] empty_world) = Inr ''text''" by blast
  from run_command_result[of ?E "[''/bin/fabric'', ''-sp'', ''p'']" empty_world] b
  obtain e where "fst (run_command ?E [''/bin/fabric'', ''-sp'', ''p''] empty_world) = Inl e"
    "exitCode e = returncode (exec ?E [''/bin/fabric'', ''-sp'', ''p''] (files empty_world))"
    "captured_stderr e = stderr (exec ?E [''/bin/fabric'', ''-sp'', ''p''] (files empty_world))"
    by blast
  with c have "\<exists>e. fst (run_command ?E [''/bin/fabric'', ''-sp'', ''p''] empty_world) = Inl e
          \<and> exitCode e = 3 \<and> captured_stderr e = ''boom''"
    by simp
  with 1 show ?thesis by simp
qed

subsection \<open>The model listing\<close>

lemma strip_empty_iff: "(strip n = []) = list_all py_isspace n"
proof -
  have "(strip n = []) = (\<forall>x \<in> set (dropWhile py_isspace n). py_isspace x)"
    by (simp add: strip_def)
  also have "\<dots> = (\<forall>x \<in> set n. py_isspace x)"
  proof
    assume a: "\<forall>x \<in> set (dropWhile py_isspace n). py_isspace x"
    have "set n = set (takeWhile py_isspace n) \<union> set (dropWhile py_isspace n)"
      by (metis set_append takeWhile_dropWhile_id)
    with a show "\<forall>x \<in> set n. py_isspace x"
      by (auto dest: set_takeWhileD)
  next
    assume "\<forall>x \<in> set n. py_isspace x"
    then show "\<forall>x \<in> set (dropWhile py_isspace n). py_isspace x"
      by (auto dest: set_dropWhileD)
  qed
  finally show ?thesis by (simp add: list_all_iff)
qed

lemma spec_model_listing_Cons:
  "spec_model_listing (item # rest) =
     (case name_of item of
        None \<Rightarrow> spec_model_listing rest
      | Some n \<Rightarrow>
          (if n \<notin> set header_names \<and> \<not> list_all py_isspace n
           then [(''name'', n)] # spec_model_listing rest
           else spec_model_listing rest))"
  by (simp add: spec_model_listing_def split: option.splits)

lemma filtered_models_spec:
  "list_all plain_string xs \<Longrightarrow> filtered_models xs = Inr (spec_model_listing xs)"
proof (induction xs)
  case Nil
  show ?case by (simp add: spec_model_listing_def)
next
  case (Cons item rest)
  then have ih: "filtered_models rest = Inr (spec_model_listing rest)"
    and p: "plain_string item" by simp_all
  show ?case
  proof (cases item)
    case (Str_entry s)
    with p ih show ?thesis by (simp add: spec_model_listing_Cons)
  next
    case (Dict_entry d)
    with ih show ?thesis
      by (simp add: spec_model_listing_Cons strip_empty_iff split: option.splits)
  qed
qed

text \<open>
  C5. The transform of GET /models would have to drop the header and blank entries of any
  list of strings and records and return the model records in their order. The guard
  \<open>'name' in item\<close> is a key test on a record but a substring test on a bare string:
  for the string \<open>Model names:\<close> it holds, \<open>item['name']\<close> then raises TypeError, and
  the handler, which has no \<open>except\<close> around the comprehension, returns no list at all,
  although the list holds the record of gpt-4.
\<close>

theorem model_listing_string_entry_TypeError:
  "filtered_models [Str_entry ''Model names:'', Dict_entry [(''name'', ''gpt-4'')]] = Inl TypeError
   \<and> get_models
        (demo_env (ok []) (ok [])
           (PyList [Str_entry ''Model names:'', Dict_entry [(''name'', ''gpt-4'')]]))
        ''darwin'' = Inl (Unhandled TypeError)"
  by (simp add: get_models_def demo_env_def)

text \<open>
  Where no bare string has \<open>name\<close> inside it the comprehension raises nothing; the list
  of the spec is such a list and gives the records of gpt-4 and claude-3. A name made of
  a no-break space is blank and is dropped.
\<close>

lemma filtered_models_spec_example:
  "filtered_models
     [Str_entry ''GPT Models:'', Dict_entry [(''name'', ''gpt-4'')], Dict_entry [(''name'', [])],
      Dict_entry [(''name'', ''claude-3'')], Str_entry ''Claude Models:'']
   = Inr [[(''name'', ''gpt-4'')], [(''name'', ''claude-3'')]]"
  by (simp add: header_names_def strip_def py_isspace_def)

lemma filtered_models_no_break_space:
  "filtered_models [Dict_entry [(''name'', [CHR 0xA0])], Dict_entry [(''name'', ''gpt-4'')]]
   = Inr [[(''name'', ''gpt-4'')]]"
  by (simp add: header_names_def strip_def py_isspace_def)

subsection \<open>Starting on an unsupported platform\<close>

text \<open>
  C6. On a platform that is neither darwin nor win32 the file prints its message and
  exits with status 1 while it is being loaded; the server is never started, so no
  listener is bound.
\<close>

theorem unsupported_platform_exits_before_listening:
  assumes "sys_platform \<noteq> ''darwin''" and "sys_platform \<noteq> ''win32''"
  shows "run_module H sys_platform is_main = [Print ''Unsupported operating system'', Exit 1]
         \<and> \<not> list_ex is_Listen (run_module H sys_platform is_main)"
  using assms by (simp add: run_module_def module_level_def)

theorem unsupported_platform_exits_before_listening_witness:
  "''linux'' \<noteq> ''darwin'' \<and> ''linux'' \<noteq> ''win32''
   \<and> run_module demo_host ''linux'' True = [Print ''Unsupported operating system'', Exit 1]
   \<and> \<not> list_ex is_Listen (run_module demo_host ''linux'' True)"
proof -
  have a: "''linux'' \<noteq> ''darwin''" and b: "''linux'' \<noteq> ''win32''" by simp_all
  from unsupported_platform_exits_before_listening[OF a b, of demo_host True] a b
  show ?thesis by simp
qed

text \<open>On the two supported platforms the script does bind its listener.\<close>

lemma supported_platform_listens:
  "sys_platform = ''darwin'' \<or> sys_platform = ''win32'' \<Longrightarrow>
     run_module H sys_platform True = [Listen ''127.0.0.1'' 49152]"
  by (auto simp: run_module_def module_level_def start_api_server_def Let_def)

subsection \<open>The pattern listing\<close>

text \<open>
  C7. GET /patterns (on darwin and win32, the platforms on which the module loads)
  returns the list of the tool as it is when the tool hands back a list, and answers
  500 with the rendered result for anything that is not a list.
\<close>

theorem get_patterns_pass_through:
  assumes "sys_platform = ''darwin'' \<or> sys_platform = ''win32''"
  shows "(execute_fabric_command E ''--list'' = PyList xs \<longrightarrow>
            get_patterns E sys_platform = Inr (Data_patterns xs))
       \<and> ((\<forall>ys. execute_fabric_command E ''--list'' \<noteq> PyList ys) \<longrightarrow>
            get_patterns E sys_platform =
              Inl (HTTPException 500 (Str_of_result (execute_fabric_command E ''--list''))))"
  using assms by (cases "execute_fabric_command E ''--list''") (auto simp: get_patterns_def)

theorem get_patterns_pass_through_witness:
  "get_patterns (demo_env (ok []) (ok []) (PyList [Str_entry ''summarize'', Str_entry ''extract_wisdom'']))
     ''win32'' = Inr (Data_patterns [Str_entry ''summarize'', Str_entry ''extract_wisdom''])
   \<and> get_patterns (demo_env (ok []) (ok []) (PyStr ''fabric: not found'')) ''darwin''
     = Inl (HTTPException 500 (Str_of_result (PyStr ''fabric: not found'')))"
proof -
  let ?xs = "[Str_entry ''summarize'', Str_entry ''extract_wisdom'']"
  let ?E1 = "demo_env (ok []) (ok []) (PyList ?xs)"
  let ?E2 = "demo_env (ok []) (ok []) (PyStr ''fabric: not found'')"
  have p1: "''win32'' = ''darwin'' \<or> ''win32'' = ''win32''" by simp
  have p2: "''darwin'' = ''darwin'' \<or> ''darwin'' = ''win32''" by simp
  have l1: "execute_fabric_command ?E1 ''--list'' = PyList ?xs" by (simp add: demo_env_def)
  have l2: "execute_fabric_command ?E2 ''--list'' = PyStr ''fabric: not found''"
    by (simp add: demo_env_def)
  then have n2: "\<forall>ys. execute_fabric_command ?E2 ''--list'' \<noteq> PyList ys" by simp
  from get_patterns_pass_through[OF p1, of ?E1 ?xs] l1
  have a: "get_patterns ?E1 ''win32'' = Inr (Data_patterns ?xs)" by blast
  from get_patterns_pass_through[OF p2, of ?E2] n2
  have "get_patterns ?E2 ''darwin'' =
          Inl (HTTPException 500 (Str_of_result (execute_fabric_command ?E2 ''--list'')))" by blast
  with l2 have b: "get_patterns ?E2 ''darwin'' =
          Inl (HTTPException 500 (Str_of_result (PyStr ''fabric: not found'')))" by simp
  from a b show ?thesis by simp
qed

subsection \<open>The guards of the win32 branch\<close>

text \<open>
  C9. POST /fabric on win32 with an empty \<open>data\<close> field: \<open>temp_file_path\<close> is read
  without ever having been assigned. The handler ends in an uncaught UnboundLocalError
  (a NameError), not in the HTTPException of the CalledProcessError path; no child
  process is started and the world is left as it was.
\<close>

theorem fabric_win32_empty_data_NameError:
  "fabric E ''win32'' P (request\<lparr>data := []\<rparr>) w =
     (Inl (Unhandled (UnboundLocalError ''temp_file_path'')), w)
   \<and> is_NameError (UnboundLocalError ''temp_file_path'')
   \<and> fst (fabric E ''win32'' P (request\<lparr>data := []\<rparr>) w) \<noteq> Inl (HTTPException 500 d)"
  by (simp add: fabric_def)

text \<open>
  C10. POST /yt on win32, when the transcript fetch succeeds with an empty standard
  output: the handler answers with the empty output as a success, and the world is the
  one the fetch left, with that one process started, no temporary file written and no
  fabric run.
\<close>

theorem yt_win32_empty_transcript:
  assumes "run_command E [''wsl'', ''-e'', YT_PATH P, url request] w = (Inr [], w1)"
  shows "yt E ''win32'' P request w = (Inr (Output []), w1)
         \<and> calls w1 = calls w @ [([''wsl'', ''-e'', YT_PATH P, url request], files w)]
         \<and> files w1 = files w"
  using assms run_command_calls[OF assms] by (simp add: yt_def)

theorem yt_win32_empty_transcript_witness:
  "yt (demo_env (ok []) (ok ''summary'') PyNone) ''win32'' demo_profile
      \<lparr>pattern = ''summarize'', model = ''gpt-4'', url = ''https://youtu.be/x''\<rparr> empty_world =
     (Inr (Output []),
      \<lparr>files = Map.empty,
       calls = [([''wsl'', ''-e'', ''/home/u/.local/bin/yt'', ''https://youtu.be/x''], Map.empty)]\<rparr>)"
proof -
  let ?E = "demo_env (ok []) (ok ''summary'') PyNone"
  let ?r = "\<lparr>pattern = ''summarize'', model = ''gpt-4'', url = ''https://youtu.be/x''\<rparr>"
  let ?w1 = "\<lparr>files = Map.empty,
       calls = [([''wsl'', ''-e'', ''/home/u/.local/bin/yt'', ''https://youtu.be/x''], Map.empty)]\<rparr>"
  have h: "run_command ?E [''wsl'', ''-e'', YT_PATH demo_profile, url ?r] empty_world = (Inr [], ?w1)"
    by (simp add: run_command_def demo_env_def demo_exec_def ok_def demo_profile_def empty_world_def)
  from yt_win32_empty_transcript[OF h] show ?thesis by simp
qed

end
